theory Spec2Isabelle
  imports Main
begin

section \<open>The user store of rath-client (store/userStore.ts)\<close>

subsection \<open>Data of the store\<close>

text \<open>
  A property declared \<^verbatim>\<open>p?: T | null | undefined\<close> has three states: absent
  (\<^verbatim>\<open>undefined\<close>), \<^verbatim>\<open>null\<close>, or a value. Identifiers, sizes and time stamps are
  JavaScript numbers that the store only carries around; they are integers here.
  The fields of the three nested interfaces carry a prefix, since \<^verbatim>\<open>id\<close> and
  \<^verbatim>\<open>name\<close> occur in each of them.
\<close>

datatype 'a optional = Undefined | Null | Defined 'a

record INotebook =
  nb_id :: int
  nb_name :: string
  nb_size :: int
  nb_createAt :: int
  nb_downLoadURL :: string

record IWorkspace =
  ws_id :: int
  ws_name :: string
  ws_notebooks :: "INotebook list optional"

record IOrganization =
  org_name :: string
  org_id :: int
  org_workspaces :: "IWorkspace list optional"

record IUserInfo =
  userName :: string
  email :: string
  eduEmail :: string
  phone :: string
  avatarURL :: string
  organizations :: "IOrganization list optional"

text \<open>
  The keys of \<^verbatim>\<open>ILoginForm\<close> and \<^verbatim>\<open>ISignUpForm\<close>: the type of the parameter
  \<^verbatim>\<open>fieldKey\<close> of \<^verbatim>\<open>updateForm\<close> is the union of both key sets.
\<close>

datatype FieldKey =
  K_userName | K_password | K_email | K_checkPassword | K_phone | K_certCode | K_invCode

text \<open>
  A form is a JavaScript object whose properties are read with \<^verbatim>\<open>in\<close> and written by
  key, so it is a finite map from keys to strings. \<^verbatim>\<open>ILoginForm\<close> and
  \<^verbatim>\<open>ISignUpForm\<close> say which keys \<^verbatim>\<open>init\<close> puts there.
\<close>

type_synonym Form = "FieldKey \<rightharpoonup> string"

text \<open>
  Modelled from the spec: the type \<^verbatim>\<open>IAccessPageKeys\<close> is declared in
  \<^verbatim>\<open>../interfaces\<close>, which is not part of the sources at hand. The store indexes
  itself with it and applies \<^verbatim>\<open>in\<close> to the result, so its members name the two form
  properties of the store, \<^verbatim>\<open>login\<close> and \<^verbatim>\<open>signup\<close>.
\<close>

datatype IAccessPageKeys = Key_login | Key_signup

record UserStore =
  login :: Form
  signup :: Form
  info :: "IUserInfo option"

subsection \<open>Operations of the store\<close>

definition init :: "UserStore \<Rightarrow> UserStore" where
  "init this = this\<lparr>
     login := [K_userName \<mapsto> '''', K_password \<mapsto> '''', K_email \<mapsto> ''''],
     signup := [K_userName \<mapsto> '''', K_password \<mapsto> '''', K_checkPassword \<mapsto> '''',
                K_email \<mapsto> '''', K_phone \<mapsto> '''', K_certCode \<mapsto> '''', K_invCode \<mapsto> ''''],
     info := None\<rparr>"

definition destroy :: "UserStore \<Rightarrow> UserStore" where
  "destroy this = this\<lparr>info := None\<rparr>"

definition loggedIn :: "UserStore \<Rightarrow> bool" where
  "loggedIn this = (info this \<noteq> None)"

text \<open>\<^verbatim>\<open>this[formKey]\<close> and the assignment \<^verbatim>\<open>this[formKey][fieldKey] = value\<close>.\<close>

fun form_of :: "UserStore \<Rightarrow> IAccessPageKeys \<Rightarrow> Form" where
  "form_of this Key_login = login this"
| "form_of this Key_signup = signup this"

fun set_field :: "UserStore \<Rightarrow> IAccessPageKeys \<Rightarrow> FieldKey \<Rightarrow> string \<Rightarrow> UserStore" where
  "set_field this Key_login fieldKey v = this\<lparr>login := (login this)(fieldKey \<mapsto> v)\<rparr>"
| "set_field this Key_signup fieldKey v = this\<lparr>signup := (signup this)(fieldKey \<mapsto> v)\<rparr>"

definition updateForm ::
  "IAccessPageKeys \<Rightarrow> FieldKey \<Rightarrow> string \<Rightarrow> UserStore \<Rightarrow> UserStore" where
  "updateForm formKey fieldKey v this =
     (if form_of this formKey fieldKey \<noteq> None
      then set_field this formKey fieldKey v
      else this)"

section \<open>The notebook importer (\<^verbatim>\<open>loadNotebook\<close>)\<close>

subsection \<open>Values, errors and the archive\<close>

text \<open>
  What \<^verbatim>\<open>JSON.parse\<close> returns. An object is the list of its own properties (their keys
  are distinct after parsing). Numbers are never inspected by the importer. A property
  read yields an optional value, \<^term>\<open>None\<close> standing for \<^verbatim>\<open>undefined\<close>.
\<close>

datatype json =
  JNull | JBool bool | JNum int | JStr string | JArr "json list" | JObj "(string \<times> json) list"

text \<open>
  Thrown values. \<^verbatim>\<open>Thrown\<close> is any other value a collaborator throws or rejects with,
  given by its string rendering.
\<close>

datatype error = Error string | TypeError string | SyntaxError string | Thrown string

text \<open>The template literal \<^verbatim>\<open>`${error}`\<close>, after \<^verbatim>\<open>Error.prototype.toString\<close>.\<close>

fun error_text :: "error \<Rightarrow> string" where
  "error_text (Error m) = (if m = [] then ''Error'' else ''Error: '' @ m)"
| "error_text (TypeError m) = (if m = [] then ''TypeError'' else ''TypeError: '' @ m)"
| "error_text (SyntaxError m) = (if m = [] then ''SyntaxError'' else ''SyntaxError: '' @ m)"
| "error_text (Thrown s) = s"

text \<open>
  An entry of the zip archive as \<^verbatim>\<open>getEntries\<close> lists it: its file name, and what
  \<^verbatim>\<open>await entry.getData(new TextWriter())\<close> gives, the text of the entry or a rejection
  (a damaged or encrypted entry, or a directory entry, which has no \<^verbatim>\<open>getData\<close>).
\<close>

record Entry =
  filename :: string
  getData :: "error + string"

text \<open>The argument of \<^verbatim>\<open>loadNotebook\<close>: a \<^verbatim>\<open>File\<close> or a \<^verbatim>\<open>ReadableStream\<close>.\<close>

datatype 's Body = File 's | ReadableStream 's

fun stream_of :: "'s Body \<Rightarrow> 's" where
  "stream_of (File f) = f"
| "stream_of (ReadableStream s) = s"

subsection \<open>Collaborators and observable events\<close>

datatype SinkCall =
  dataSourceStore_loadBackupDataStore json json
| collectionStore_loadBackup json
| causalStore_load json
| dashboardStore_loadAll json

text \<open>The argument of \<^verbatim>\<open>notify\<close>; the field \<^verbatim>\<open>type\<close> is called \<open>kind\<close> here.\<close>

record Notification =
  title :: string
  kind :: string
  content :: string

text \<open>
  Objects the call creates and would have to close. The source never calls
  \<^verbatim>\<open>close\<close> on any of them, so no \<^verbatim>\<open>Close\<close> event is ever emitted below.
\<close>

datatype Resource = ZipReader | TextWriter

datatype Event = New Resource | Close Resource | Call SinkCall | Notify Notification

text \<open>
  How a sink answers a call: it returns (a value, or a promise that is fulfilled), it
  throws while it is called, or it returns a promise that is rejected later.
\<close>

datatype SinkOutcome = Returns | Throws error | Rejects error

text \<open>
  The collaborators of the importer: \<^verbatim>\<open>new ZipReader(stream).getEntries()\<close>,
  \<^verbatim>\<open>JSON.parse\<close>, and the four sink operations of the global store.
  \<^verbatim>\<open>notify\<close> and \<^verbatim>\<open>getGlobalStore\<close> do not throw.
\<close>

record 's Env =
  getEntries :: "'s \<Rightarrow> error + Entry list"
  JSON_parse :: "string \<Rightarrow> error + json"
  sink :: "SinkCall \<Rightarrow> SinkOutcome"

text \<open>
  Modelled from the spec: the enum \<^verbatim>\<open>IKRFComponents\<close> is declared in
  \<^verbatim>\<open>../utils/download\<close>, which is not part of the sources at hand. Its members are the
  kinds the spec lists, meta, data, collection, causal and dashboard, each a string
  that a manifest item carries in \<^verbatim>\<open>key\<close> and \<^verbatim>\<open>type\<close>.
\<close>

abbreviation IKRFComponents_meta :: string where "IKRFComponents_meta \<equiv> ''meta''"
abbreviation IKRFComponents_data :: string where "IKRFComponents_data \<equiv> ''data''"
abbreviation IKRFComponents_collection :: string where "IKRFComponents_collection \<equiv> ''collection''"
abbreviation IKRFComponents_causal :: string where "IKRFComponents_causal \<equiv> ''causal''"
abbreviation IKRFComponents_dashboard :: string where "IKRFComponents_dashboard \<equiv> ''dashboard''"

subsection \<open>JavaScript operations on parsed values\<close>

text \<open>
  The property read \<^verbatim>\<open>v.k\<close> for the names the importer reads (\<^verbatim>\<open>items\<close>,
  \<^verbatim>\<open>name\<close>, \<^verbatim>\<open>key\<close>, \<^verbatim>\<open>type\<close>): it throws on \<^verbatim>\<open>null\<close>, looks the key up in an
  object, and is \<^verbatim>\<open>undefined\<close> on strings, numbers, booleans and arrays, none of which
  has a property of these names.
\<close>

fun get_prop :: "string \<Rightarrow> json \<Rightarrow> error + json option" where
  "get_prop k JNull = Inl (TypeError (''Cannot read properties of null (reading '' @ k @ '')''))"
| "get_prop k (JObj kvs) = Inr (map_of kvs k)"
| "get_prop k v = Inr None"

text \<open>
  What \<^verbatim>\<open>for await (... of v)\<close> iterates: the elements of an array, the characters
  of a string; anything else, \<^verbatim>\<open>undefined\<close> included, is not iterable.
\<close>

fun iterate :: "json option \<Rightarrow> error + json list" where
  "iterate (Some (JArr xs)) = Inr xs"
| "iterate (Some (JStr s)) = Inr (map (\<lambda>c. JStr [c]) s)"
| "iterate v = Inl (TypeError ''manifest.items is not iterable'')"

text \<open>The destructuring \<^verbatim>\<open>const { name, key } = item\<close>.\<close>

definition destructure :: "json \<Rightarrow> error + (json option \<times> json option)" where
  "destructure item =
     (case get_prop ''name'' item of
        Inl e \<Rightarrow> Inl e
      | Inr name \<Rightarrow> (case get_prop ''key'' item of Inl e \<Rightarrow> Inl e | Inr key \<Rightarrow> Inr (name, key)))"

text \<open>\<^verbatim>\<open>result.find(which => which.filename === name)\<close>, with strict equality.\<close>

definition find_entry :: "Entry list \<Rightarrow> json option \<Rightarrow> Entry option" where
  "find_entry result name = find (\<lambda>which. Some (JStr (filename which)) = name) result"

text \<open>
  \<^verbatim>\<open>manifest.items.find(item => item.type === IKRFComponents.meta)\<close>: the callback
  throws on a \<^verbatim>\<open>null\<close> element reached before a match; only an array has \<^verbatim>\<open>find\<close>.
\<close>

fun find_meta :: "json list \<Rightarrow> error + json option" where
  "find_meta [] = Inr None"
| "find_meta (item # items) =
     (case get_prop ''type'' item of
        Inl e \<Rightarrow> Inl e
      | Inr t \<Rightarrow> if t = Some (JStr IKRFComponents_meta) then Inr (Some item) else find_meta items)"

text \<open>
  The spec's words for the same lookup, to compare the code with: the first item, in
  manifest-array order, whose \<^verbatim>\<open>type\<close> is \<^verbatim>\<open>meta\<close>.
\<close>

definition first_meta :: "json list \<Rightarrow> json option" where
  "first_meta xs =
     find (\<lambda>item. get_prop ''type'' item = Inr (Some (JStr IKRFComponents_meta))) xs"

fun items_find_meta :: "json option \<Rightarrow> error + json option" where
  "items_find_meta (Some (JArr xs)) = find_meta xs"
| "items_find_meta v = Inl (TypeError ''manifest.items.find is not a function'')"

subsection \<open>The import routine\<close>

type_synonym 'a outcome = "(error + 'a) \<times> Event list"

text \<open>
  A sink call inside the inner \<^verbatim>\<open>try\<close>. A throw during the call always reaches the
  \<^verbatim>\<open>catch\<close>. A rejected promise reaches it only when the call is awaited, as the one
  of \<^verbatim>\<open>loadBackupDataStore\<close> is; the promise that \<^verbatim>\<open>loadBackup\<close>, \<^verbatim>\<open>load\<close> or
  \<^verbatim>\<open>loadAll\<close> returns is dropped, so its rejection is seen by nobody in this routine.
\<close>

definition call_sink :: "'s Env \<Rightarrow> bool \<Rightarrow> SinkCall \<Rightarrow> unit outcome" where
  "call_sink env awaited c =
     ((case sink env c of
         Returns \<Rightarrow> Inr ()
       | Throws e \<Rightarrow> Inl e
       | Rejects e \<Rightarrow> if awaited then Inl e else Inr ()),
      [Call c])"

definition load_error :: "error \<Rightarrow> Notification" where
  "load_error e = \<lparr>title = ''Load Notebook Error'', kind = ''error'', content = error_text e\<rparr>"

text \<open>
  The body of the inner \<^verbatim>\<open>try\<close>: extract the entry's text, then switch on the key.
  The arguments of \<^verbatim>\<open>loadBackupDataStore\<close> are evaluated left to right after the meta
  entry has been read.
\<close>

definition loadNotebook_item_try ::
  "'s Env \<Rightarrow> Entry list \<Rightarrow> json option \<Rightarrow> Entry \<Rightarrow> json option \<Rightarrow> unit outcome" where
  "loadNotebook_item_try env result items entry key =
     (case getData entry of
        Inl e \<Rightarrow> (Inl e, [])
      | Inr res \<Rightarrow>
          if key = Some (JStr IKRFComponents_data) then
            (case items_find_meta items of
               Inl e \<Rightarrow> (Inl e, [])
             | Inr None \<Rightarrow> (Inr (), [])
             | Inr (Some metaFile) \<Rightarrow>
                 (case get_prop ''name'' metaFile of
                    Inl e \<Rightarrow> (Inl e, [])
                  | Inr metaName \<Rightarrow>
                      (case find_entry result metaName of
                         None \<Rightarrow> (Inr (), [])
                       | Some meta \<Rightarrow>
                           (case getData meta of
                              Inl e \<Rightarrow> (Inl e, [New TextWriter])
                            | Inr rm \<Rightarrow>
                                (case JSON_parse env res of
                                   Inl e \<Rightarrow> (Inl e, [New TextWriter])
                                 | Inr d \<Rightarrow>
                                     (case JSON_parse env rm of
                                        Inl e \<Rightarrow> (Inl e, [New TextWriter])
                                      | Inr m \<Rightarrow>
                                          (case call_sink env True (dataSourceStore_loadBackupDataStore d m) of
                                             (r, tr) \<Rightarrow> (r, New TextWriter # tr))))))))
          else if key = Some (JStr IKRFComponents_collection) then
            (case JSON_parse env res of
               Inl e \<Rightarrow> (Inl e, [])
             | Inr v \<Rightarrow> call_sink env False (collectionStore_loadBackup v))
          else if key = Some (JStr IKRFComponents_causal) then
            (case JSON_parse env res of
               Inl e \<Rightarrow> (Inl e, [])
             | Inr v \<Rightarrow> call_sink env False (causalStore_load v))
          else if key = Some (JStr IKRFComponents_dashboard) then
            (case JSON_parse env res of
               Inl e \<Rightarrow> (Inl e, [])
             | Inr v \<Rightarrow> call_sink env False (dashboardStore_loadAll v))
          else (Inr (), []))"

text \<open>
  One iteration of the loop. The destructuring in the loop head is outside the inner
  \<^verbatim>\<open>try\<close>, so its failure leaves the loop (\<^term>\<open>Inl\<close>); the inner \<^verbatim>\<open>catch\<close> notifies
  and continues.
\<close>

definition loadNotebook_item ::
  "'s Env \<Rightarrow> Entry list \<Rightarrow> json option \<Rightarrow> json \<Rightarrow> unit outcome" where
  "loadNotebook_item env result items item =
     (case destructure item of
        Inl e \<Rightarrow> (Inl e, [])
      | Inr (name, key) \<Rightarrow>
          (case find_entry result name of
             None \<Rightarrow> (Inr (), [])
           | Some entry \<Rightarrow>
               if key = Some (JStr IKRFComponents_meta) then (Inr (), [])
               else
                 (case loadNotebook_item_try env result items entry key of
                    (Inl e, tr) \<Rightarrow> (Inr (), New TextWriter # tr @ [Notify (load_error e)])
                  | (Inr u, tr) \<Rightarrow> (Inr (), New TextWriter # tr))))"

fun loadNotebook_loop ::
  "'s Env \<Rightarrow> Entry list \<Rightarrow> json option \<Rightarrow> json list \<Rightarrow> unit outcome" where
  "loadNotebook_loop env result items [] = (Inr (), [])"
| "loadNotebook_loop env result items (item # rest) =
     (case loadNotebook_item env result items item of
        (Inl e, tr) \<Rightarrow> (Inl e, tr)
      | (Inr u, tr) \<Rightarrow>
          (case loadNotebook_loop env result items rest of (r, tr') \<Rightarrow> (r, tr @ tr')))"

text \<open>The body of the outer \<^verbatim>\<open>try\<close>.\<close>

definition loadNotebook_try :: "'s Env \<Rightarrow> 's Body \<Rightarrow> unit outcome" where
  "loadNotebook_try env body =
     (case getEntries env (stream_of body) of
        Inl e \<Rightarrow> (Inl e, [New ZipReader])
      | Inr result \<Rightarrow>
          (case find (\<lambda>entry. filename entry = ''parse_map.json'') result of
             None \<Rightarrow> (Inl (Error ''Cannot find parse_map.json''), [New ZipReader])
           | Some manifestFile \<Rightarrow>
               (case getData manifestFile of
                  Inl e \<Rightarrow> (Inl e, [New ZipReader, New TextWriter])
                | Inr text \<Rightarrow>
                    (case JSON_parse env text of
                       Inl e \<Rightarrow> (Inl e, [New ZipReader, New TextWriter])
                     | Inr manifest \<Rightarrow>
                         (case get_prop ''items'' manifest of
                            Inl e \<Rightarrow> (Inl e, [New ZipReader, New TextWriter])
                          | Inr items \<Rightarrow>
                              (case iterate items of
                                 Inl e \<Rightarrow> (Inl e, [New ZipReader, New TextWriter])
                               | Inr xs \<Rightarrow>
                                   (case loadNotebook_loop env result items xs of
                                      (r, tr) \<Rightarrow> (r, [New ZipReader, New TextWriter] @ tr))))))))"

text \<open>
  \<^verbatim>\<open>loadNotebook\<close>: the outer \<^verbatim>\<open>try\<close> with its \<^verbatim>\<open>catch\<close>. The first component is
  how the call ends for its caller: \<^term>\<open>Inr ()\<close> when the promise resolves,
  \<^term>\<open>Inl e\<close> when it rejects with \<open>e\<close>.
\<close>

definition loadNotebook :: "'s Env \<Rightarrow> 's Body \<Rightarrow> unit outcome" where
  "loadNotebook env body =
     (case loadNotebook_try env body of
        (Inl e, tr) \<Rightarrow> (Inr (), tr @ [Notify (load_error e)])
      | (Inr u, tr) \<Rightarrow> (Inr (), tr))"

subsection \<open>Reading a trace\<close>

fun calls :: "Event list \<Rightarrow> SinkCall list" where
  "calls [] = []"
| "calls (Call c # tr) = c # calls tr"
| "calls (ev # tr) = calls tr"

fun notifications :: "Event list \<Rightarrow> Notification list" where
  "notifications [] = []"
| "notifications (Notify n # tr) = n # notifications tr"
| "notifications (ev # tr) = notifications tr"

fun acquired :: "Event list \<Rightarrow> Resource list" where
  "acquired [] = []"
| "acquired (New r # tr) = r # acquired tr"
| "acquired (ev # tr) = acquired tr"

fun released :: "Event list \<Rightarrow> Resource list" where
  "released [] = []"
| "released (Close r # tr) = r # released tr"
| "released (ev # tr) = released tr"

text \<open>Every object created in a trace has been closed in it, as often as it was created.\<close>

definition all_released :: "Event list \<Rightarrow> bool" where
  "all_released tr =
     list_all (\<lambda>r. count_list (acquired tr) r \<le> count_list (released tr) r) (acquired tr)"

text \<open>The events of the iteration for one manifest item.\<close>

definition item_events :: "'s Env \<Rightarrow> Entry list \<Rightarrow> json option \<Rightarrow> json \<Rightarrow> Event list" where
  "item_events env result items item = snd (loadNotebook_item env result items item)"

subsection \<open>Sample archives\<close>

text \<open>
  Concrete inputs on which the theorems below are exercised. The stream of a sample body is
  the outcome of listing its entries; \<^verbatim>\<open>JSON.parse\<close> is a finite table from entry
  texts to values and rejects every other text.
\<close>

definition parse_table :: "(string \<times> json) list \<Rightarrow> string \<Rightarrow> error + json" where
  "parse_table tbl s =
     (case map_of tbl s of
        Some v \<Rightarrow> Inr v
      | None \<Rightarrow> Inl (SyntaxError ''Unexpected token in JSON''))"

definition sample_env ::
  "(string \<times> json) list \<Rightarrow> (SinkCall \<Rightarrow> SinkOutcome) \<Rightarrow> (error + Entry list) Env" where
  "sample_env tbl snk = \<lparr>getEntries = (\<lambda>s. s), JSON_parse = parse_table tbl, sink = snk\<rparr>"

definition accept_all :: "SinkCall \<Rightarrow> SinkOutcome" where
  "accept_all c = Returns"

definition text_entry :: "string \<Rightarrow> string \<Rightarrow> Entry" where
  "text_entry f t = \<lparr>filename = f, getData = Inr t\<rparr>"

definition manifest_item :: "string \<Rightarrow> string \<Rightarrow> string \<Rightarrow> json" where
  "manifest_item n k t = JObj [(''name'', JStr n), (''key'', JStr k), (''type'', JStr t)]"

definition manifest_of :: "json list \<Rightarrow> json" where
  "manifest_of xs = JObj [(''items'', JArr xs), (''version'', JStr ''1'')]"

text \<open>
  The archive of the spec's first testable property: a data item, its meta item and
  a collection item.
\<close>

definition item_a :: json where "item_a = manifest_item ''a.json'' ''data'' ''data''"
definition item_m :: json where "item_m = manifest_item ''m.json'' ''meta'' ''meta''"
definition item_c :: json where "item_c = manifest_item ''c.json'' ''collection'' ''collection''"

definition json_a :: json where "json_a = JArr [JNum 1, JNum 2]"
definition json_m :: json where "json_m = JObj [(''fields'', JArr [])]"
definition json_c :: json where "json_c = JArr [JStr ''view'']"

definition sample_table :: "json list \<Rightarrow> (string \<times> json) list" where
  "sample_table xs =
     [(''text of parse_map'', manifest_of xs), (''text of a'', json_a),
      (''text of m'', json_m), (''text of c'', json_c)]"

definition sample_entries :: "Entry list" where
  "sample_entries =
     [text_entry ''a.json'' ''text of a'', text_entry ''parse_map.json'' ''text of parse_map'',
      text_entry ''m.json'' ''text of m'', text_entry ''c.json'' ''text of c'']"

definition spec_items :: "json list" where
  "spec_items = [item_a, item_m, item_c]"

definition spec_env :: "(error + Entry list) Env" where
  "spec_env = sample_env (sample_table spec_items) accept_all"

text \<open>The same archive with a manifest that lists no meta item.\<close>

definition no_meta_items :: "json list" where
  "no_meta_items = [item_a, item_c]"

definition no_meta_env :: "(error + Entry list) Env" where
  "no_meta_env = sample_env (sample_table no_meta_items) accept_all"

text \<open>
  An entry whose extraction is rejected, as zip.js does for an encrypted entry read
  without a password; an entry whose text is not JSON; a sink that throws at every call;
  a manifest without \<^verbatim>\<open>items\<close>; a manifest with a \<^verbatim>\<open>null\<close> element.
\<close>

definition encrypted_entry :: "string \<Rightarrow> Entry" where
  "encrypted_entry f = \<lparr>filename = f, getData = Inl (Error ''File contains encrypted entry'')\<rparr>"

definition encrypted_entries :: "Entry list" where
  "encrypted_entries =
     [encrypted_entry ''a.json'', text_entry ''parse_map.json'' ''text of parse_map'',
      text_entry ''c.json'' ''text of c'']"

definition malformed_entries :: "Entry list" where
  "malformed_entries =
     [text_entry ''parse_map.json'' ''text of parse_map'', text_entry ''c.json'' ''{ view'',
      text_entry ''a.json'' ''text of a'', text_entry ''m.json'' ''text of m'']"

definition reject_all :: "SinkCall \<Rightarrow> SinkOutcome" where
  "reject_all c = Throws (Thrown ''backup rejected'')"

definition rejecting_env :: "(error + Entry list) Env" where
  "rejecting_env = sample_env (sample_table spec_items) reject_all"

definition no_items_env :: "(error + Entry list) Env" where
  "no_items_env = sample_env [(''text of parse_map'', JObj [(''version'', JStr ''1'')])] accept_all"

definition null_items :: "json list" where
  "null_items = [item_m, item_a, item_c, JNull, item_a]"

definition null_env :: "(error + Entry list) Env" where
  "null_env = sample_env (sample_table null_items) accept_all"

text \<open>
  Sinks that answer with a promise rejected later; a manifest with a \<^verbatim>\<open>null\<close> element
  after a meta item; a manifest with a second data item; a manifest whose
  \<^verbatim>\<open>items\<close> is a string.
\<close>

definition reject_later :: "SinkCall \<Rightarrow> SinkOutcome" where
  "reject_later c = Rejects (Thrown ''backup rejected'')"

definition rejecting_later_env :: "(error + Entry list) Env" where
  "rejecting_later_env = sample_env (sample_table spec_items) reject_later"

definition meta_null_items :: "json list" where
  "meta_null_items = [item_m, JNull, item_c]"

definition meta_null_env :: "(error + Entry list) Env" where
  "meta_null_env = sample_env (sample_table meta_null_items) accept_all"

definition item_b :: json where "item_b = manifest_item ''b.json'' ''causal'' ''causal''"

definition two_data_items :: "json list" where
  "two_data_items = [item_c, item_m, item_a, item_b, item_a]"

definition two_data_env :: "(error + Entry list) Env" where
  "two_data_env = sample_env (sample_table two_data_items) accept_all"

definition string_items_env :: "(error + Entry list) Env" where
  "string_items_env =
     sample_env [(''text of parse_map'', JObj [(''items'', JStr ''ab'')])] accept_all"

definition unparseable_entries :: "Entry list" where
  "unparseable_entries = [text_entry ''parse_map.json'' ''{ items'']"

definition empty_store :: UserStore where
  "empty_store = \<lparr>login = Map.empty, signup = Map.empty, info = None\<rparr>"

section \<open>Properties of the store\<close>

lemma form_of_set_field:
  "form_of (set_field this fk k v) fk' k' =
     (if fk' = fk \<and> k' = k then Some v else form_of this fk' k')"
  by (cases fk; cases fk') simp_all

lemma info_set_field: "info (set_field this fk k v) = info this"
  by (cases fk) simp_all

text \<open>
  C10. For both form keys, every field key and every value: \<^verbatim>\<open>updateForm\<close> stores the
  value under the field key when that key is an existing property of the chosen form,
  and returns the store unchanged when it is not. In both cases every other field of
  both forms and \<^verbatim>\<open>info\<close> keep their contents.
\<close>

theorem updateForm_frame:
  "(form_of this formKey fieldKey \<noteq> None \<longrightarrow>
      form_of (updateForm formKey fieldKey v this) formKey fieldKey = Some v)
   \<and> (form_of this formKey fieldKey = None \<longrightarrow> updateForm formKey fieldKey v this = this)
   \<and> (\<forall>fk k. (fk, k) \<noteq> (formKey, fieldKey) \<longrightarrow>
         form_of (updateForm formKey fieldKey v this) fk k = form_of this fk k)
   \<and> info (updateForm formKey fieldKey v this) = info this"
  by (simp add: updateForm_def form_of_set_field info_set_field)

theorem updateForm_frame_witness:
  "form_of (init empty_store) Key_login K_email \<noteq> None
   \<and> form_of (updateForm Key_login K_email ''ann@example.org'' (init empty_store))
         Key_login K_email = Some ''ann@example.org''
   \<and> form_of (init empty_store) Key_login K_phone = None
   \<and> updateForm Key_login K_phone ''555'' (init empty_store) = init empty_store
   \<and> (Key_signup, K_email) \<noteq> (Key_login, K_email)
   \<and> form_of (updateForm Key_login K_email ''ann@example.org'' (init empty_store))
         Key_signup K_email = form_of (init empty_store) Key_signup K_email
   \<and> info (updateForm Key_login K_email ''ann@example.org'' (init empty_store)) =
         info (init empty_store)"
proof -
  have h1: "form_of (init empty_store) Key_login K_email \<noteq> None"
    by (simp add: init_def)
  have h2: "form_of (init empty_store) Key_login K_phone = None"
    by (simp add: init_def)
  have h3: "(Key_signup, K_email) \<noteq> (Key_login, K_email)"
    by simp
  show ?thesis
    using h1 h2 h3
      updateForm_frame [of "init empty_store" Key_login K_email "''ann@example.org''"]
      updateForm_frame [of "init empty_store" Key_login K_phone "''555''"]
    by blast
qed

section \<open>Properties of the importer\<close>

subsection \<open>Traces, property reads and the loop\<close>

lemma calls_append: "calls (xs @ ys) = calls xs @ calls ys"
  by (induction xs rule: calls.induct) simp_all
lemma notifications_append: "notifications (xs @ ys) = notifications xs @ notifications ys"
  by (induction xs rule: notifications.induct) simp_all
lemma acquired_append: "acquired (xs @ ys) = acquired xs @ acquired ys"
  by (induction xs rule: acquired.induct) simp_all
lemma released_append: "released (xs @ ys) = released xs @ released ys"
  by (induction xs rule: released.induct) simp_all

lemma try_notifications:
  "notifications (snd (loadNotebook_item_try env result items entry key)) = []"
  by (simp add: loadNotebook_item_try_def call_sink_def
      split: sum.split option.split SinkOutcome.split)

lemma try_released:
  "released (snd (loadNotebook_item_try env result items entry key)) = []"
  by (simp add: loadNotebook_item_try_def call_sink_def
      split: sum.split option.split SinkOutcome.split)

lemma try_calls_le1:
  "length (calls (snd (loadNotebook_item_try env result items entry key))) \<le> 1"
  by (simp add: loadNotebook_item_try_def call_sink_def
      split: sum.split option.split SinkOutcome.split)

lemma item_fst:
  "fst (loadNotebook_item env result items item) =
     (if item = JNull then Inl (TypeError ''Cannot read properties of null (reading name)'')
      else Inr ())"
  by (cases item)
     (auto simp: loadNotebook_item_def destructure_def split: option.split sum.split prod.split)

lemma loop_Cons:
  "item \<noteq> JNull \<Longrightarrow>
   loadNotebook_loop env result items (item # rest) =
     (fst (loadNotebook_loop env result items rest),
      item_events env result items item @ snd (loadNotebook_loop env result items rest))"
  using item_fst [of env result items item]
  by (cases "loadNotebook_item env result items item";
      cases "loadNotebook_loop env result items rest")
     (auto simp: item_events_def split: sum.split)

lemma loop_closed:
  "loadNotebook_loop env result items xs =
     ((if JNull \<in> set xs
       then Inl (TypeError ''Cannot read properties of null (reading name)'') else Inr ()),
      concat (map (item_events env result items) (takeWhile (\<lambda>x. x \<noteq> JNull) xs)))"
proof (induction xs)
  case Nil
  show ?case by simp
next
  case (Cons x xs)
  show ?case
  proof (cases "x = JNull")
    case True
    then show ?thesis by (simp add: loadNotebook_item_def destructure_def)
  next
    case False
    then show ?thesis using Cons.IH
      by (simp add: loop_Cons del: loadNotebook_loop.simps)
  qed
qed

lemma calls_concat: "calls (concat (map f xs)) = concat (map (\<lambda>x. calls (f x)) xs)"
  by (induction xs) (simp_all add: calls_append)

lemma released_concat: "(\<And>x. released (f x) = []) \<Longrightarrow> released (concat (map f xs)) = []"
  by (induction xs) (simp_all add: released_append)

lemma try_releasedD:
  "loadNotebook_item_try env result items entry key = (r, tr) \<Longrightarrow> released tr = []"
  using try_released [of env result items entry key] by simp

lemma try_calls_le1D:
  "loadNotebook_item_try env result items entry key = (r, tr) \<Longrightarrow> length (calls tr) \<le> 1"
  using try_calls_le1 [of env result items entry key] by simp

lemma item_released: "released (item_events env result items item) = []"
  by (auto simp: item_events_def loadNotebook_item_def released_append
      split: sum.split option.split prod.split dest: try_releasedD)

lemma item_calls_le1: "length (calls (item_events env result items item)) \<le> 1"
  by (auto simp: item_events_def loadNotebook_item_def calls_append
      split: sum.split option.split prod.split dest: try_calls_le1D)

lemma item_meta_silent:
  "get_prop ''key'' item = Inr (Some (JStr IKRFComponents_meta)) \<Longrightarrow>
   item_events env result items item = []"
  by (cases item)
     (auto simp: item_events_def loadNotebook_item_def destructure_def split: option.split)

lemma loop_released: "released (snd (loadNotebook_loop env result items xs)) = []"
  by (simp add: loop_closed released_concat item_released)

lemma loop_releasedD:
  "loadNotebook_loop env result items xs = (r, tr) \<Longrightarrow> released tr = []"
  using loop_released [of env result items xs] by simp

lemma try_top_released: "released (snd (loadNotebook_try env body)) = []"
  by (auto simp: loadNotebook_try_def split: sum.split option.split prod.split
      dest: loop_releasedD)

lemma try_top_acquired: "\<exists>ws. acquired (snd (loadNotebook_try env body)) = ZipReader # ws"
  by (auto simp: loadNotebook_try_def split: sum.split option.split prod.split)

text \<open>
  The lookup of the code against the spec's words: on a manifest without
  \<^verbatim>\<open>null\<close> elements \<^verbatim>\<open>find\<close> does not throw and yields the first item of type
  \<^verbatim>\<open>meta\<close>.
\<close>

lemma find_meta_first_meta: "JNull \<notin> set xs \<Longrightarrow> find_meta xs = Inr (first_meta xs)"
proof (induction xs)
  case Nil
  show ?case by (simp add: first_meta_def)
next
  case (Cons x xs)
  then have "x \<noteq> JNull" and IH: "find_meta xs = Inr (first_meta xs)"
    by auto
  then obtain t where t: "get_prop ''type'' x = Inr t"
    by (cases x) auto
  show ?case
    using t IH by (simp add: first_meta_def)
qed

text \<open>
  The trace of a call whose manifest is an array without \<^verbatim>\<open>null\<close> elements: the
  blocks of all items, in order.
\<close>

lemma loadNotebook_trace_array:
  assumes "getEntries env (stream_of body) = Inr result"
    and "find (\<lambda>entry. filename entry = ''parse_map.json'') result = Some manifestFile"
    and "getData manifestFile = Inr text"
    and "JSON_parse env text = Inr manifest"
    and "get_prop ''items'' manifest = Inr (Some (JArr xs))"
    and "JNull \<notin> set xs"
  shows "snd (loadNotebook env body) =
           [New ZipReader, New TextWriter]
           @ concat (map (item_events env result (Some (JArr xs))) xs)"
proof -
  have tw: "takeWhile (\<lambda>x. x \<noteq> JNull) xs = xs"
    using assms(6) by (auto simp: takeWhile_eq_all_conv)
  show ?thesis
    using assms by (simp add: loadNotebook_def loadNotebook_try_def loop_closed tw)
qed

subsection \<open>Pairing a data item with the meta item\<close>

text \<open>
  C1, as the claim states it, fails: for a manifest item with key \<^verbatim>\<open>data\<close> whose archive
  entry is found, \<^verbatim>\<open>loadBackupDataStore\<close> is not called when the manifest lists no item
  of type \<^verbatim>\<open>meta\<close>. In the sample archive with the manifest \<open>[a.json, c.json]\<close> the
  only sink call is the one of the collection item.
\<close>

theorem data_item_without_meta_counterexample:
  "destructure item_a = Inr (Some (JStr ''a.json''), Some (JStr IKRFComponents_data))
   \<and> find_entry sample_entries (Some (JStr ''a.json'')) = Some (text_entry ''a.json'' ''text of a'')
   \<and> calls (snd (loadNotebook no_meta_env (File (Inr sample_entries)))) =
       [collectionStore_loadBackup json_c]"
  by code_simp

text \<open>
  C1, amended. Let \<^verbatim>\<open>manifest.items\<close> be an array without \<^verbatim>\<open>null\<close> elements. For
  every item of it with key \<^verbatim>\<open>data\<close> whose archive entry is found, if the text of that
  entry is extracted and parses as JSON, and the first item of the array whose
  \<^verbatim>\<open>type\<close> is \<^verbatim>\<open>meta\<close> exists, names an archive entry that is found, and the text of
  that entry is extracted and parses as JSON, then \<^verbatim>\<open>loadNotebook\<close> calls
  \<^verbatim>\<open>loadBackupDataStore\<close> exactly once for the data item, with the two parsed payloads,
  at the place of the item among the sink calls of the other items. The meta item
  depends on the manifest only: it is the same for every data item.
\<close>

theorem data_item_loads_with_first_meta:
  assumes "getEntries env (stream_of body) = Inr result"
    and "find (\<lambda>entry. filename entry = ''parse_map.json'') result = Some manifestFile"
    and "getData manifestFile = Inr text"
    and "JSON_parse env text = Inr manifest"
    and "get_prop ''items'' manifest = Inr (Some (JArr xs))"
    and "JNull \<notin> set xs"
    and "xs = pre @ item # post"
    and "destructure item = Inr (name, Some (JStr IKRFComponents_data))"
    and "find_entry result name = Some entry"
    and "getData entry = Inr res"
    and "JSON_parse env res = Inr d"
    and "first_meta xs = Some metaFile"
    and "get_prop ''name'' metaFile = Inr metaName"
    and "find_entry result metaName = Some meta"
    and "getData meta = Inr rm"
    and "JSON_parse env rm = Inr m"
  shows "calls (item_events env result (Some (JArr xs)) item) =
           [dataSourceStore_loadBackupDataStore d m]
     \<and> calls (snd (loadNotebook env body)) =
           concat (map (\<lambda>x. calls (item_events env result (Some (JArr xs)) x)) pre)
           @ dataSourceStore_loadBackupDataStore d m
             # concat (map (\<lambda>x. calls (item_events env result (Some (JArr xs)) x)) post)"
proof -
  have fm: "find_meta xs = Inr (Some metaFile)"
    using find_meta_first_meta [OF assms(6)] assms(12) by simp
  have c: "calls (item_events env result (Some (JArr xs)) item) =
      [dataSourceStore_loadBackupDataStore d m]"
    using assms(8-11,13-16) fm
    by (simp add: item_events_def loadNotebook_item_def loadNotebook_item_try_def
        call_sink_def calls_append split: SinkOutcome.split)
  have "snd (loadNotebook env body) =
      [New ZipReader, New TextWriter] @ concat (map (item_events env result (Some (JArr xs))) xs)"
    by (rule loadNotebook_trace_array [OF assms(1-6)])
  then show ?thesis
    using c by (simp add: assms(7) calls_append calls_concat)
qed

theorem data_item_loads_with_first_meta_witness:
  "get_prop ''items'' (manifest_of two_data_items) = Inr (Some (JArr two_data_items))
   \<and> two_data_items = [item_c, item_m] @ item_a # [item_b, item_a]
   \<and> two_data_items = [item_c, item_m, item_a, item_b] @ item_a # []
   \<and> destructure item_a = Inr (Some (JStr ''a.json''), Some (JStr IKRFComponents_data))
   \<and> first_meta two_data_items = Some item_m
   \<and> JSON_parse two_data_env ''text of a'' = Inr json_a
   \<and> JSON_parse two_data_env ''text of m'' = Inr json_m
   \<and> calls (item_events two_data_env sample_entries (Some (JArr two_data_items)) item_a) =
       [dataSourceStore_loadBackupDataStore json_a json_m]
   \<and> calls (snd (loadNotebook two_data_env (File (Inr sample_entries)))) =
       [collectionStore_loadBackup json_c, dataSourceStore_loadBackupDataStore json_a json_m,
        dataSourceStore_loadBackupDataStore json_a json_m]"
proof -
  have m1: "getEntries two_data_env (stream_of (File (Inr sample_entries))) = Inr sample_entries"
    by (simp add: two_data_env_def sample_env_def)
  have m2: "find (\<lambda>entry. filename entry = ''parse_map.json'') sample_entries =
       Some (text_entry ''parse_map.json'' ''text of parse_map'')"
    by code_simp
  have m3: "getData (text_entry ''parse_map.json'' ''text of parse_map'') =
      Inr ''text of parse_map''"
    by (simp add: text_entry_def)
  have m4: "JSON_parse two_data_env ''text of parse_map'' = Inr (manifest_of two_data_items)"
    by code_simp
  have m5: "get_prop ''items'' (manifest_of two_data_items) = Inr (Some (JArr two_data_items))"
    by code_simp
  have m6: "JNull \<notin> set two_data_items"
    by code_simp
  have s1: "two_data_items = [item_c, item_m] @ item_a # [item_b, item_a]"
    by (simp add: two_data_items_def)
  have s2: "two_data_items = [item_c, item_m, item_a, item_b] @ item_a # []"
    by (simp add: two_data_items_def)
  have h1: "destructure item_a = Inr (Some (JStr ''a.json''), Some (JStr IKRFComponents_data))"
    by code_simp
  have h2: "find_entry sample_entries (Some (JStr ''a.json'')) =
      Some (text_entry ''a.json'' ''text of a'')"
    by code_simp
  have h3: "getData (text_entry ''a.json'' ''text of a'') = Inr ''text of a''"
    by (simp add: text_entry_def)
  have h4: "JSON_parse two_data_env ''text of a'' = Inr json_a"
    by code_simp
  have h5: "first_meta two_data_items = Some item_m"
    by code_simp
  have h6: "get_prop ''name'' item_m = Inr (Some (JStr ''m.json''))"
    by code_simp
  have h7: "find_entry sample_entries (Some (JStr ''m.json'')) =
      Some (text_entry ''m.json'' ''text of m'')"
    by code_simp
  have h8: "getData (text_entry ''m.json'' ''text of m'') = Inr ''text of m''"
    by (simp add: text_entry_def)
  have h9: "JSON_parse two_data_env ''text of m'' = Inr json_m"
    by code_simp
  have o1: "map (\<lambda>x. calls (item_events two_data_env sample_entries
        (Some (JArr two_data_items)) x)) [item_c, item_m] = [[collectionStore_loadBackup json_c], []]"
    by code_simp
  have o2: "map (\<lambda>x. calls (item_events two_data_env sample_entries
        (Some (JArr two_data_items)) x)) [item_b, item_a] =
      [[], [dataSourceStore_loadBackupDataStore json_a json_m]]"
    by code_simp
  note r1 = data_item_loads_with_first_meta [OF m1 m2 m3 m4 m5 m6 s1 h1 h2 h3 h4 h5 h6 h7 h8 h9]
  note r2 = data_item_loads_with_first_meta [OF m1 m2 m3 m4 m5 m6 s2 h1 h2 h3 h4 h5 h6 h7 h8 h9]
  show ?thesis
    using m5 s1 s2 h1 h4 h5 h9 r1 conjunct1 [OF r2] o1 o2 by simp
qed

subsection \<open>A missing manifest\<close>

text \<open>
  C2. When the archive lists no entry whose file name is exactly \<open>parse_map.json\<close>,
  the import is given up: no sink is called and exactly one error notification is
  emitted.
\<close>

theorem missing_manifest_aborts:
  assumes "getEntries env (stream_of body) = Inr result"
    and "\<forall>entry \<in> set result. filename entry \<noteq> ''parse_map.json''"
  shows "calls (snd (loadNotebook env body)) = []
     \<and> notifications (snd (loadNotebook env body)) =
         [load_error (Error ''Cannot find parse_map.json'')]"
proof -
  have "find (\<lambda>entry. filename entry = ''parse_map.json'') result = None"
    using assms(2) by (simp add: find_None_iff)
  then show ?thesis
    using assms(1) by (simp add: loadNotebook_def loadNotebook_try_def)
qed

theorem missing_manifest_aborts_witness:
  "getEntries spec_env (stream_of (File (Inr [text_entry ''a.json'' ''text of a'']))) =
     Inr [text_entry ''a.json'' ''text of a'']
   \<and> map filename [text_entry ''a.json'' ''text of a''] = [''a.json'']
   \<and> calls (snd (loadNotebook spec_env (File (Inr [text_entry ''a.json'' ''text of a''])))) = []
   \<and> notifications (snd (loadNotebook spec_env (File (Inr [text_entry ''a.json'' ''text of a''])))) =
       [\<lparr>title = ''Load Notebook Error'', kind = ''error'',
         content = ''Error: Cannot find parse_map.json''\<rparr>]"
proof -
  have h1: "getEntries spec_env (stream_of (File (Inr [text_entry ''a.json'' ''text of a'']))) =
     Inr [text_entry ''a.json'' ''text of a'']"
    by (simp add: spec_env_def sample_env_def)
  have h2: "\<forall>entry \<in> set [text_entry ''a.json'' ''text of a'']. filename entry \<noteq> ''parse_map.json''"
    by (simp add: text_entry_def)
  have h3: "map filename [text_entry ''a.json'' ''text of a''] = [''a.json'']"
    by (simp add: text_entry_def)
  show ?thesis
    using missing_manifest_aborts [OF h1 h2] h1 h3 by (simp add: load_error_def)
qed

subsection \<open>Items that are skipped\<close>

text \<open>
  C3, as the claim states it, fails when the manifest has a \<^verbatim>\<open>null\<close> element. In the
  manifest \<open>[m.json, null, c.json]\<close> the item with key \<^verbatim>\<open>meta\<close> is skipped, but the
  \<^verbatim>\<open>null\<close> element, which names no archive entry, makes the loop head fail: one
  notification is emitted and the collection item behind it, whose iteration would call
  its sink, is never processed.
\<close>

theorem skip_then_null_counterexample:
  "destructure item_m = Inr (Some (JStr ''m.json''), Some (JStr IKRFComponents_meta))
   \<and> snd (loadNotebook meta_null_env (File (Inr sample_entries))) =
       [New ZipReader, New TextWriter,
        Notify \<lparr>title = ''Load Notebook Error'', kind = ''error'',
          content = ''TypeError: Cannot read properties of null (reading name)''\<rparr>]
   \<and> item_events meta_null_env sample_entries (Some (JArr meta_null_items)) item_c =
       [New TextWriter, Call (collectionStore_loadBackup json_c)]"
  by code_simp

text \<open>
  C3, amended. Let \<^verbatim>\<open>manifest.items\<close> be an array without \<^verbatim>\<open>null\<close> elements. An item
  of it whose key is \<^verbatim>\<open>meta\<close>, or whose name is the file name of no archive entry, is
  skipped: its iteration has no event, so no sink call and no notification, and every
  other item is processed: the trace of \<^verbatim>\<open>loadNotebook\<close> is made of the blocks of
  the items before it and of the items after it.
\<close>

theorem skip_meta_or_missing:
  assumes "getEntries env (stream_of body) = Inr result"
    and "find (\<lambda>entry. filename entry = ''parse_map.json'') result = Some manifestFile"
    and "getData manifestFile = Inr text"
    and "JSON_parse env text = Inr manifest"
    and "get_prop ''items'' manifest = Inr (Some (JArr xs))"
    and "JNull \<notin> set xs"
    and "xs = pre @ item # post"
    and "destructure item = Inr (name, key)"
    and "key = Some (JStr IKRFComponents_meta) \<or> find_entry result name = None"
  shows "item_events env result (Some (JArr xs)) item = []
     \<and> snd (loadNotebook env body) =
           [New ZipReader, New TextWriter]
           @ concat (map (item_events env result (Some (JArr xs))) pre)
           @ concat (map (item_events env result (Some (JArr xs))) post)"
proof -
  have e: "item_events env result (Some (JArr xs)) item = []"
    using assms(8,9) by (auto simp: item_events_def loadNotebook_item_def split: option.split)
  have "snd (loadNotebook env body) =
      [New ZipReader, New TextWriter] @ concat (map (item_events env result (Some (JArr xs))) xs)"
    by (rule loadNotebook_trace_array [OF assms(1-6)])
  then show ?thesis
    using e by (simp add: assms(7))
qed

theorem skip_meta_or_missing_witness:
  "get_prop ''items'' (manifest_of two_data_items) = Inr (Some (JArr two_data_items))
   \<and> two_data_items = [item_c] @ item_m # [item_a, item_b, item_a]
   \<and> destructure item_m = Inr (Some (JStr ''m.json''), Some (JStr IKRFComponents_meta))
   \<and> two_data_items = [item_c, item_m, item_a] @ item_b # [item_a]
   \<and> destructure item_b = Inr (Some (JStr ''b.json''), Some (JStr IKRFComponents_causal))
   \<and> find_entry sample_entries (Some (JStr ''b.json'')) = None
   \<and> item_events two_data_env sample_entries (Some (JArr two_data_items)) item_m = []
   \<and> item_events two_data_env sample_entries (Some (JArr two_data_items)) item_b = []
   \<and> snd (loadNotebook two_data_env (File (Inr sample_entries))) =
       [New ZipReader, New TextWriter,
        New TextWriter, Call (collectionStore_loadBackup json_c),
        New TextWriter, New TextWriter, Call (dataSourceStore_loadBackupDataStore json_a json_m),
        New TextWriter, New TextWriter, Call (dataSourceStore_loadBackupDataStore json_a json_m)]"
proof -
  have m1: "getEntries two_data_env (stream_of (File (Inr sample_entries))) = Inr sample_entries"
    by (simp add: two_data_env_def sample_env_def)
  have m2: "find (\<lambda>entry. filename entry = ''parse_map.json'') sample_entries =
       Some (text_entry ''parse_map.json'' ''text of parse_map'')"
    by code_simp
  have m3: "getData (text_entry ''parse_map.json'' ''text of parse_map'') =
      Inr ''text of parse_map''"
    by (simp add: text_entry_def)
  have m4: "JSON_parse two_data_env ''text of parse_map'' = Inr (manifest_of two_data_items)"
    by code_simp
  have m5: "get_prop ''items'' (manifest_of two_data_items) = Inr (Some (JArr two_data_items))"
    by code_simp
  have m6: "JNull \<notin> set two_data_items"
    by code_simp
  have s1: "two_data_items = [item_c] @ item_m # [item_a, item_b, item_a]"
    by (simp add: two_data_items_def)
  have s2: "two_data_items = [item_c, item_m, item_a] @ item_b # [item_a]"
    by (simp add: two_data_items_def)
  have h1: "destructure item_m = Inr (Some (JStr ''m.json''), Some (JStr IKRFComponents_meta))"
    by code_simp
  have h2: "destructure item_b = Inr (Some (JStr ''b.json''), Some (JStr IKRFComponents_causal))"
    by code_simp
  have h3: "find_entry sample_entries (Some (JStr ''b.json'')) = None"
    by code_simp
  have o1: "map (item_events two_data_env sample_entries (Some (JArr two_data_items)))
        [item_c, item_m, item_a] =
      [[New TextWriter, Call (collectionStore_loadBackup json_c)], [],
       [New TextWriter, New TextWriter, Call (dataSourceStore_loadBackupDataStore json_a json_m)]]"
    by code_simp
  have o2: "map (item_events two_data_env sample_entries (Some (JArr two_data_items)))
        [item_a] =
      [[New TextWriter, New TextWriter, Call (dataSourceStore_loadBackupDataStore json_a json_m)]]"
    by code_simp
  note r1 = skip_meta_or_missing [OF m1 m2 m3 m4 m5 m6 s1 h1 disjI1 [OF refl]]
  note r2 = skip_meta_or_missing [OF m1 m2 m3 m4 m5 m6 s2 h2 disjI2 [OF h3]]
  show ?thesis
    using m5 s1 s2 h1 h2 h3 conjunct1 [OF r1] r2 o1 o2 by simp
qed

text \<open>
  C4, as the claim states it, fails: a data item whose manifest has no meta item still
  produces an error notification when the extraction of its own entry is rejected. In
  the archive below \<open>a.json\<close> is encrypted and the manifest is \<open>[a.json, c.json]\<close>.
\<close>

theorem silent_skip_counterexample:
  "destructure item_a = Inr (Some (JStr ''a.json''), Some (JStr IKRFComponents_data))
   \<and> items_find_meta (Some (JArr no_meta_items)) = Inr None
   \<and> notifications (snd (loadNotebook no_meta_env (File (Inr encrypted_entries)))) =
       [\<lparr>title = ''Load Notebook Error'', kind = ''error'',
         content = ''Error: File contains encrypted entry''\<rparr>]"
  by code_simp

text \<open>
  C4, amended. Let \<^verbatim>\<open>manifest.items\<close> be an array without \<^verbatim>\<open>null\<close> elements. For
  every item of it with key \<^verbatim>\<open>data\<close>, if the array has no item of type \<^verbatim>\<open>meta\<close>, or
  the archive has no entry named by the first such item, then no sink is called for the
  data item and every other item is processed: the trace of \<^verbatim>\<open>loadNotebook\<close> is
  made of the blocks of the items before it, its own block and the blocks of the items
  after it. No notification is emitted for it either, provided its own entry is missing
  or the text of its own entry is extracted.
\<close>

theorem data_without_meta_skipped:
  assumes "getEntries env (stream_of body) = Inr result"
    and "find (\<lambda>entry. filename entry = ''parse_map.json'') result = Some manifestFile"
    and "getData manifestFile = Inr text"
    and "JSON_parse env text = Inr manifest"
    and "get_prop ''items'' manifest = Inr (Some (JArr xs))"
    and "JNull \<notin> set xs"
    and "xs = pre @ item # post"
    and "destructure item = Inr (name, Some (JStr IKRFComponents_data))"
    and "first_meta xs = None
         \<or> (first_meta xs = Some metaFile
            \<and> get_prop ''name'' metaFile = Inr metaName
            \<and> find_entry result metaName = None)"
  shows "calls (item_events env result (Some (JArr xs)) item) = []
     \<and> ((find_entry result name = None
          \<or> (\<exists>entry res. find_entry result name = Some entry \<and> getData entry = Inr res)) \<longrightarrow>
         notifications (item_events env result (Some (JArr xs)) item) = [])
     \<and> snd (loadNotebook env body) =
           [New ZipReader, New TextWriter]
           @ concat (map (item_events env result (Some (JArr xs))) pre)
           @ item_events env result (Some (JArr xs)) item
           @ concat (map (item_events env result (Some (JArr xs))) post)"
proof -
  have fm: "find_meta xs = Inr (first_meta xs)"
    by (rule find_meta_first_meta [OF assms(6)])
  have c: "calls (item_events env result (Some (JArr xs)) item) = []"
    using assms(8,9) fm
    by (auto simp: item_events_def loadNotebook_item_def loadNotebook_item_try_def
        split: option.split sum.split)
  have n: "find_entry result name = None
          \<or> (\<exists>entry res. find_entry result name = Some entry \<and> getData entry = Inr res) \<Longrightarrow>
      notifications (item_events env result (Some (JArr xs)) item) = []"
    using assms(8,9) fm
    by (auto simp: item_events_def loadNotebook_item_def loadNotebook_item_try_def
        split: option.split sum.split)
  have "snd (loadNotebook env body) =
      [New ZipReader, New TextWriter] @ concat (map (item_events env result (Some (JArr xs))) xs)"
    by (rule loadNotebook_trace_array [OF assms(1-6)])
  then show ?thesis
    using c n by (simp add: assms(7))
qed

theorem data_without_meta_skipped_witness:
  "get_prop ''items'' (manifest_of no_meta_items) = Inr (Some (JArr no_meta_items))
   \<and> no_meta_items = [] @ item_a # [item_c]
   \<and> destructure item_a = Inr (Some (JStr ''a.json''), Some (JStr IKRFComponents_data))
   \<and> first_meta no_meta_items = None
   \<and> find_entry sample_entries (Some (JStr ''a.json'')) = Some (text_entry ''a.json'' ''text of a'')
   \<and> getData (text_entry ''a.json'' ''text of a'') = Inr ''text of a''
   \<and> calls (item_events no_meta_env sample_entries (Some (JArr no_meta_items)) item_a) = []
   \<and> notifications (item_events no_meta_env sample_entries (Some (JArr no_meta_items)) item_a) = []
   \<and> snd (loadNotebook no_meta_env (File (Inr sample_entries))) =
       [New ZipReader, New TextWriter, New TextWriter,
        New TextWriter, Call (collectionStore_loadBackup json_c)]"
proof -
  have m1: "getEntries no_meta_env (stream_of (File (Inr sample_entries))) = Inr sample_entries"
    by (simp add: no_meta_env_def sample_env_def)
  have m2: "find (\<lambda>entry. filename entry = ''parse_map.json'') sample_entries =
       Some (text_entry ''parse_map.json'' ''text of parse_map'')"
    by code_simp
  have m3: "getData (text_entry ''parse_map.json'' ''text of parse_map'') =
      Inr ''text of parse_map''"
    by (simp add: text_entry_def)
  have m4: "JSON_parse no_meta_env ''text of parse_map'' = Inr (manifest_of no_meta_items)"
    by code_simp
  have m5: "get_prop ''items'' (manifest_of no_meta_items) = Inr (Some (JArr no_meta_items))"
    by code_simp
  have m6: "JNull \<notin> set no_meta_items"
    by code_simp
  have s1: "no_meta_items = [] @ item_a # [item_c]"
    by (simp add: no_meta_items_def)
  have h1: "destructure item_a = Inr (Some (JStr ''a.json''), Some (JStr IKRFComponents_data))"
    by code_simp
  have h2: "first_meta no_meta_items = None"
    by code_simp
  have h3: "find_entry sample_entries (Some (JStr ''a.json'')) =
      Some (text_entry ''a.json'' ''text of a'')"
    by code_simp
  have h4: "getData (text_entry ''a.json'' ''text of a'') = Inr ''text of a''"
    by (simp add: text_entry_def)
  have h5: "find_entry sample_entries (Some (JStr ''a.json'')) = None
      \<or> (\<exists>entry res. find_entry sample_entries (Some (JStr ''a.json'')) = Some entry
            \<and> getData entry = Inr res)"
    using h3 h4 by blast
  have o1: "item_events no_meta_env sample_entries (Some (JArr no_meta_items)) item_a =
      [New TextWriter]"
    by code_simp
  have o2: "map (item_events no_meta_env sample_entries (Some (JArr no_meta_items))) [item_c] =
      [[New TextWriter, Call (collectionStore_loadBackup json_c)]]"
    by code_simp
  note r = data_without_meta_skipped [OF m1 m2 m3 m4 m5 m6 s1 h1 disjI1 [OF h2]]
  show ?thesis
    using m5 s1 h1 h2 h3 h4 h5 r o1 o2 by simp
qed

subsection \<open>Failures of one item\<close>

text \<open>
  C5, as the claim states it, fails for a sink call that is not awaited. With sinks that
  answer by a promise rejected later, the data item of the sample archive gets its
  notification, since \<^verbatim>\<open>loadBackupDataStore\<close> is awaited, but the failed
  \<^verbatim>\<open>loadBackup\<close> call of the collection item is not caught and emits none.
\<close>

theorem unawaited_rejection_counterexample:
  "sink rejecting_later_env (collectionStore_loadBackup json_c) = Rejects (Thrown ''backup rejected'')
   \<and> calls (snd (loadNotebook rejecting_later_env (File (Inr sample_entries)))) =
       [dataSourceStore_loadBackupDataStore json_a json_m, collectionStore_loadBackup json_c]
   \<and> item_events rejecting_later_env sample_entries (Some (JArr spec_items)) item_c =
       [New TextWriter, Call (collectionStore_loadBackup json_c)]
   \<and> notifications (snd (loadNotebook rejecting_later_env (File (Inr sample_entries)))) =
       [\<lparr>title = ''Load Notebook Error'', kind = ''error'', content = ''backup rejected''\<rparr>]"
  by code_simp

text \<open>
  C5, amended. Let \<^verbatim>\<open>manifest.items\<close> be an array without \<^verbatim>\<open>null\<close> elements, and take
  an item of it that is processed: its entry is found and its key is not \<^verbatim>\<open>meta\<close>.
  Each of the following failures is caught inside the loop, emits exactly one error
  notification for the item, with the text of the error, and leaves every other item
  processed:
  \<^item> the extraction of the item's payload is rejected;
  \<^item> for a collection, causal or dashboard item, \<^verbatim>\<open>JSON.parse\<close> of the payload throws,
    or the sink throws while it is called;
  \<^item> for a data item whose meta entry is found, the extraction of the meta payload is
    rejected, \<^verbatim>\<open>JSON.parse\<close> of either payload throws, or \<^verbatim>\<open>loadBackupDataStore\<close>
    throws or rejects.
  Nothing is said of a promise rejected by \<^verbatim>\<open>loadBackup\<close>, \<^verbatim>\<open>load\<close> or
  \<^verbatim>\<open>loadAll\<close>.
\<close>

theorem item_failure_isolated:
  assumes "getEntries env (stream_of body) = Inr result"
    and "find (\<lambda>entry. filename entry = ''parse_map.json'') result = Some manifestFile"
    and "getData manifestFile = Inr text"
    and "JSON_parse env text = Inr manifest"
    and "get_prop ''items'' manifest = Inr (Some (JArr xs))"
    and "JNull \<notin> set xs"
    and "xs = pre @ item # post"
    and "destructure item = Inr (name, key)"
    and "find_entry result name = Some entry"
    and "key \<noteq> Some (JStr IKRFComponents_meta)"
    and "getData entry = Inl e
       \<or> (getData entry = Inr res \<and> JSON_parse env res = Inl e
          \<and> key \<in> {Some (JStr IKRFComponents_collection), Some (JStr IKRFComponents_causal),
                   Some (JStr IKRFComponents_dashboard)})
       \<or> (getData entry = Inr res \<and> JSON_parse env res = Inr v
          \<and> (key = Some (JStr IKRFComponents_collection)
                \<and> sink env (collectionStore_loadBackup v) = Throws e
              \<or> key = Some (JStr IKRFComponents_causal)
                \<and> sink env (causalStore_load v) = Throws e
              \<or> key = Some (JStr IKRFComponents_dashboard)
                \<and> sink env (dashboardStore_loadAll v) = Throws e))
       \<or> (key = Some (JStr IKRFComponents_data) \<and> getData entry = Inr res
          \<and> first_meta xs = Some metaFile \<and> get_prop ''name'' metaFile = Inr metaName
          \<and> find_entry result metaName = Some meta
          \<and> (getData meta = Inl e
              \<or> getData meta = Inr rm
                \<and> (JSON_parse env res = Inl e
                    \<or> JSON_parse env res = Inr d
                      \<and> (JSON_parse env rm = Inl e
                          \<or> JSON_parse env rm = Inr m
                            \<and> (sink env (dataSourceStore_loadBackupDataStore d m) = Throws e
                                \<or> sink env (dataSourceStore_loadBackupDataStore d m) =
                                    Rejects e)))))"
  shows "notifications (item_events env result (Some (JArr xs)) item) =
           [\<lparr>title = ''Load Notebook Error'', kind = ''error'', content = error_text e\<rparr>]
     \<and> snd (loadNotebook env body) =
           [New ZipReader, New TextWriter]
           @ concat (map (item_events env result (Some (JArr xs))) pre)
           @ item_events env result (Some (JArr xs)) item
           @ concat (map (item_events env result (Some (JArr xs))) post)"
proof -
  have fm: "find_meta xs = Inr (first_meta xs)"
    by (rule find_meta_first_meta [OF assms(6)])
  have n: "notifications (item_events env result (Some (JArr xs)) item) =
      [\<lparr>title = ''Load Notebook Error'', kind = ''error'', content = error_text e\<rparr>]"
    using assms(11) assms(8-10) fm
    by (elim disjE conjE insertE emptyE;
        simp add: item_events_def loadNotebook_item_def loadNotebook_item_try_def
          call_sink_def load_error_def notifications_append)
  have "snd (loadNotebook env body) =
      [New ZipReader, New TextWriter] @ concat (map (item_events env result (Some (JArr xs))) xs)"
    by (rule loadNotebook_trace_array [OF assms(1-6)])
  then show ?thesis
    using n by (simp add: assms(7))
qed

theorem item_failure_isolated_witness:
  "get_prop ''items'' (manifest_of spec_items) = Inr (Some (JArr spec_items))
   \<and> spec_items = [] @ item_a # [item_m, item_c]
   \<and> destructure item_a = Inr (Some (JStr ''a.json''), Some (JStr IKRFComponents_data))
   \<and> first_meta spec_items = Some item_m
   \<and> sink rejecting_env (dataSourceStore_loadBackupDataStore json_a json_m) =
       Throws (Thrown ''backup rejected'')
   \<and> spec_items = [item_a, item_m] @ item_c # []
   \<and> destructure item_c = Inr (Some (JStr ''c.json''), Some (JStr IKRFComponents_collection))
   \<and> find_entry malformed_entries (Some (JStr ''c.json'')) = Some (text_entry ''c.json'' ''{ view'')
   \<and> JSON_parse spec_env ''{ view'' = Inl (SyntaxError ''Unexpected token in JSON'')
   \<and> snd (loadNotebook rejecting_env (File (Inr sample_entries))) =
       [New ZipReader, New TextWriter,
        New TextWriter, New TextWriter, Call (dataSourceStore_loadBackupDataStore json_a json_m),
        Notify \<lparr>title = ''Load Notebook Error'', kind = ''error'', content = ''backup rejected''\<rparr>,
        New TextWriter, Call (collectionStore_loadBackup json_c),
        Notify \<lparr>title = ''Load Notebook Error'', kind = ''error'', content = ''backup rejected''\<rparr>]
   \<and> notifications (item_events spec_env malformed_entries (Some (JArr spec_items)) item_c) =
       [\<lparr>title = ''Load Notebook Error'', kind = ''error'',
         content = ''SyntaxError: Unexpected token in JSON''\<rparr>]
   \<and> calls (snd (loadNotebook spec_env (File (Inr malformed_entries)))) =
       [dataSourceStore_loadBackupDataStore json_a json_m]"
proof -
  have m2: "find (\<lambda>entry. filename entry = ''parse_map.json'') sample_entries =
       Some (text_entry ''parse_map.json'' ''text of parse_map'')"
    by code_simp
  have m2': "find (\<lambda>entry. filename entry = ''parse_map.json'') malformed_entries =
       Some (text_entry ''parse_map.json'' ''text of parse_map'')"
    by code_simp
  have m3: "getData (text_entry ''parse_map.json'' ''text of parse_map'') =
      Inr ''text of parse_map''"
    by (simp add: text_entry_def)
  have m5: "get_prop ''items'' (manifest_of spec_items) = Inr (Some (JArr spec_items))"
    by code_simp
  have m6: "JNull \<notin> set spec_items"
    by code_simp
  have s1: "spec_items = [] @ item_a # [item_m, item_c]"
    by (simp add: spec_items_def)
  have s2: "spec_items = [item_a, item_m] @ item_c # []"
    by (simp add: spec_items_def)
  have a1: "getEntries rejecting_env (stream_of (File (Inr sample_entries))) = Inr sample_entries"
    by (simp add: rejecting_env_def sample_env_def)
  have a4: "JSON_parse rejecting_env ''text of parse_map'' = Inr (manifest_of spec_items)"
    by code_simp
  have a8: "destructure item_a = Inr (Some (JStr ''a.json''), Some (JStr IKRFComponents_data))"
    by code_simp
  have a9: "find_entry sample_entries (Some (JStr ''a.json'')) =
      Some (text_entry ''a.json'' ''text of a'')"
    by code_simp
  have a10: "Some (JStr IKRFComponents_data) \<noteq> Some (JStr IKRFComponents_meta)"
    by simp
  have f1: "getData (text_entry ''a.json'' ''text of a'') = Inr ''text of a''"
    by (simp add: text_entry_def)
  have f2: "first_meta spec_items = Some item_m"
    by code_simp
  have f3: "get_prop ''name'' item_m = Inr (Some (JStr ''m.json''))"
    by code_simp
  have f4: "find_entry sample_entries (Some (JStr ''m.json'')) =
      Some (text_entry ''m.json'' ''text of m'')"
    by code_simp
  have f5: "getData (text_entry ''m.json'' ''text of m'') = Inr ''text of m''"
    by (simp add: text_entry_def)
  have f6: "JSON_parse rejecting_env ''text of a'' = Inr json_a"
    by code_simp
  have f7: "JSON_parse rejecting_env ''text of m'' = Inr json_m"
    by code_simp
  have f8: "sink rejecting_env (dataSourceStore_loadBackupDataStore json_a json_m) =
      Throws (Thrown ''backup rejected'')"
    by code_simp
  have b1: "getEntries spec_env (stream_of (File (Inr malformed_entries))) = Inr malformed_entries"
    by (simp add: spec_env_def sample_env_def)
  have b4: "JSON_parse spec_env ''text of parse_map'' = Inr (manifest_of spec_items)"
    by code_simp
  have b8: "destructure item_c =
      Inr (Some (JStr ''c.json''), Some (JStr IKRFComponents_collection))"
    by code_simp
  have b9: "find_entry malformed_entries (Some (JStr ''c.json'')) =
      Some (text_entry ''c.json'' ''{ view'')"
    by code_simp
  have b10: "Some (JStr IKRFComponents_collection) \<noteq> Some (JStr IKRFComponents_meta)"
    by simp
  have g1: "getData (text_entry ''c.json'' ''{ view'') = Inr ''{ view''"
    by (simp add: text_entry_def)
  have g2: "JSON_parse spec_env ''{ view'' = Inl (SyntaxError ''Unexpected token in JSON'')"
    by code_simp
  have g3: "Some (JStr IKRFComponents_collection) \<in>
      {Some (JStr IKRFComponents_collection), Some (JStr IKRFComponents_causal),
       Some (JStr IKRFComponents_dashboard)}"
    by simp
  have o1: "item_events rejecting_env sample_entries (Some (JArr spec_items)) item_a =
      [New TextWriter, New TextWriter, Call (dataSourceStore_loadBackupDataStore json_a json_m),
       Notify \<lparr>title = ''Load Notebook Error'', kind = ''error'', content = ''backup rejected''\<rparr>]"
    by code_simp
  have o2: "map (item_events rejecting_env sample_entries (Some (JArr spec_items)))
        [item_m, item_c] =
      [[], [New TextWriter, Call (collectionStore_loadBackup json_c),
         Notify \<lparr>title = ''Load Notebook Error'', kind = ''error'',
           content = ''backup rejected''\<rparr>]]"
    by code_simp
  have o3: "calls (snd (loadNotebook spec_env (File (Inr malformed_entries)))) =
       [dataSourceStore_loadBackupDataStore json_a json_m]"
    by code_simp
  note fa = disjI2 [OF disjI2 [OF disjI2 [OF conjI [OF refl conjI [OF f1 conjI [OF f2
      conjI [OF f3 conjI [OF f4 disjI2 [OF conjI [OF f5 disjI2 [OF conjI [OF f6
      disjI2 [OF conjI [OF f7 disjI1 [OF f8]]]]]]]]]]]]]]]
  note r1 = item_failure_isolated [OF a1 m2 m3 a4 m5 m6 s1 a8 a9 a10 fa]
  note r2 = item_failure_isolated [OF b1 m2' m3 b4 m5 m6 s2 b8 b9 b10
      disjI2 [OF disjI1 [OF conjI [OF g1 conjI [OF g2 g3]]]]]
  show ?thesis
    using m5 s1 s2 a8 f2 f8 b8 b9 g2 conjunct2 [OF r1] conjunct1 [OF r2] o1 o2 o3 by simp
qed

subsection \<open>Order of the sink calls\<close>

text \<open>
  C6. When the manifest has been read, the trace of \<^verbatim>\<open>loadNotebook\<close> is the two
  constructions of the reader and the manifest writer followed by the blocks of events
  of the manifest items, one block after the other in manifest-array order (up to the
  first \<^verbatim>\<open>null\<close> element, where the loop head fails). So the sink calls are the calls
  of the items in manifest order; an item contributes at most one call, and an item
  with key \<^verbatim>\<open>meta\<close> contributes no event at all.
\<close>

theorem sink_calls_in_manifest_order:
  assumes "getEntries env (stream_of body) = Inr result"
    and "find (\<lambda>entry. filename entry = ''parse_map.json'') result = Some manifestFile"
    and "getData manifestFile = Inr text"
    and "JSON_parse env text = Inr manifest"
    and "get_prop ''items'' manifest = Inr items"
    and "iterate items = Inr xs"
  shows "snd (loadNotebook env body) =
           [New ZipReader, New TextWriter]
           @ concat (map (item_events env result items) (takeWhile (\<lambda>x. x \<noteq> JNull) xs))
           @ (if JNull \<in> set xs
              then [Notify (load_error
                      (TypeError ''Cannot read properties of null (reading name)''))]
              else [])
     \<and> calls (snd (loadNotebook env body)) =
           concat (map (\<lambda>x. calls (item_events env result items x))
             (takeWhile (\<lambda>x. x \<noteq> JNull) xs))
     \<and> (\<forall>x. length (calls (item_events env result items x)) \<le> 1)
     \<and> (\<forall>x. get_prop ''key'' x = Inr (Some (JStr IKRFComponents_meta)) \<longrightarrow>
            item_events env result items x = [])"
proof -
  have tr: "snd (loadNotebook env body) =
           [New ZipReader, New TextWriter]
           @ concat (map (item_events env result items) (takeWhile (\<lambda>x. x \<noteq> JNull) xs))
           @ (if JNull \<in> set xs
              then [Notify (load_error
                      (TypeError ''Cannot read properties of null (reading name)''))]
              else [])"
    using assms by (simp add: loadNotebook_def loadNotebook_try_def loop_closed)
  have "calls (snd (loadNotebook env body)) =
           concat (map (\<lambda>x. calls (item_events env result items x))
             (takeWhile (\<lambda>x. x \<noteq> JNull) xs))"
    unfolding tr by (simp add: calls_append calls_concat)
  then show ?thesis
    using tr item_calls_le1 [of env result items] item_meta_silent [of _ env result items]
    by blast
qed

theorem sink_calls_in_manifest_order_witness:
  "getEntries null_env (stream_of (File (Inr sample_entries))) = Inr sample_entries
   \<and> find (\<lambda>entry. filename entry = ''parse_map.json'') sample_entries =
       Some (text_entry ''parse_map.json'' ''text of parse_map'')
   \<and> getData (text_entry ''parse_map.json'' ''text of parse_map'') = Inr ''text of parse_map''
   \<and> JSON_parse null_env ''text of parse_map'' = Inr (manifest_of null_items)
   \<and> get_prop ''items'' (manifest_of null_items) = Inr (Some (JArr null_items))
   \<and> iterate (Some (JArr null_items)) = Inr null_items
   \<and> calls (snd (loadNotebook null_env (File (Inr sample_entries)))) =
       concat (map (\<lambda>x. calls (item_events null_env sample_entries (Some (JArr null_items)) x))
         (takeWhile (\<lambda>x. x \<noteq> JNull) null_items))
   \<and> concat (map (\<lambda>x. calls (item_events null_env sample_entries (Some (JArr null_items)) x))
         (takeWhile (\<lambda>x. x \<noteq> JNull) null_items)) =
       [dataSourceStore_loadBackupDataStore json_a json_m, collectionStore_loadBackup json_c]
   \<and> get_prop ''key'' item_m = Inr (Some (JStr IKRFComponents_meta))
   \<and> item_events null_env sample_entries (Some (JArr null_items)) item_m = []"
proof -
  have h1: "getEntries null_env (stream_of (File (Inr sample_entries))) = Inr sample_entries"
    by (simp add: null_env_def sample_env_def)
  have h2: "find (\<lambda>entry. filename entry = ''parse_map.json'') sample_entries =
       Some (text_entry ''parse_map.json'' ''text of parse_map'')"
    by code_simp
  have h3: "getData (text_entry ''parse_map.json'' ''text of parse_map'') =
      Inr ''text of parse_map''"
    by (simp add: text_entry_def)
  have h4: "JSON_parse null_env ''text of parse_map'' = Inr (manifest_of null_items)"
    by code_simp
  have h5: "get_prop ''items'' (manifest_of null_items) = Inr (Some (JArr null_items))"
    by code_simp
  have h6: "iterate (Some (JArr null_items)) = Inr null_items"
    by simp
  have h7: "get_prop ''key'' item_m = Inr (Some (JStr IKRFComponents_meta))"
    by code_simp
  have h8: "concat (map (\<lambda>x. calls (item_events null_env sample_entries
            (Some (JArr null_items)) x)) (takeWhile (\<lambda>x. x \<noteq> JNull) null_items)) =
       [dataSourceStore_loadBackupDataStore json_a json_m, collectionStore_loadBackup json_c]"
    by code_simp
  note r = sink_calls_in_manifest_order [OF h1 h2 h3 h4 h5 h6]
  show ?thesis
    using h1 h2 h3 h4 h5 h6 h7 h8 r by blast
qed

subsection \<open>What the caller sees\<close>

text \<open>
  C7. Whatever the input, \<^verbatim>\<open>loadNotebook\<close> ends normally for its caller: an archive
  that cannot be opened, a missing or unreadable manifest and failures of items all end
  in notifications, never in an error passed on to the caller.
\<close>

theorem loadNotebook_never_throws: "fst (loadNotebook env body) = Inr ()"
  by (simp add: loadNotebook_def split: prod.split sum.split)

theorem loadNotebook_never_throws_witness:
  "fst (loadNotebook spec_env (ReadableStream (Inl (Error ''End of central directory not found'')))) =
     Inr ()
   \<and> snd (loadNotebook spec_env (ReadableStream (Inl (Error ''End of central directory not found'')))) =
     [New ZipReader, Notify (load_error (Error ''End of central directory not found''))]"
proof -
  have "snd (loadNotebook spec_env
      (ReadableStream (Inl (Error ''End of central directory not found'')))) =
     [New ZipReader, Notify (load_error (Error ''End of central directory not found''))]"
    by code_simp
  then show ?thesis
    using loadNotebook_never_throws [of spec_env
        "ReadableStream (Inl (Error ''End of central directory not found''))"]
    by simp
qed

subsection \<open>The reader and the writers\<close>

text \<open>
  C8, as the claim states it, fails: the objects created during a call are not closed
  when the call returns. For the sample archive with an empty manifest the reader and
  the manifest writer have been created and nothing has been closed.
\<close>

theorem resources_released_counterexample:
  "acquired (snd (loadNotebook (sample_env (sample_table []) accept_all)
       (File (Inr sample_entries)))) = [ZipReader, TextWriter]
   \<and> released (snd (loadNotebook (sample_env (sample_table []) accept_all)
       (File (Inr sample_entries)))) = []
   \<and> \<not> all_released (snd (loadNotebook (sample_env (sample_table []) accept_all)
       (File (Inr sample_entries))))"
  by code_simp

text \<open>
  C8, amended. On every exit path \<^verbatim>\<open>loadNotebook\<close> creates the zip reader first and
  closes nothing: neither the reader nor any writer is closed before the call returns.
  They are local to the call and left to the garbage collector.
\<close>

theorem resources_never_closed:
  "released (snd (loadNotebook env body)) = []
   \<and> (\<exists>ws. acquired (snd (loadNotebook env body)) = ZipReader # ws)
   \<and> \<not> all_released (snd (loadNotebook env body))"
proof -
  obtain r tr where rt: "loadNotebook_try env body = (r, tr)"
    by (cases "loadNotebook_try env body")
  have rel: "released tr = []"
    using try_top_released [of env body] rt by simp
  obtain ws where acq: "acquired tr = ZipReader # ws"
    using try_top_acquired [of env body] rt by auto
  have "snd (loadNotebook env body) = tr
      \<or> (\<exists>e. snd (loadNotebook env body) = tr @ [Notify (load_error e)])"
    using rt by (cases r) (auto simp: loadNotebook_def)
  then have "released (snd (loadNotebook env body)) = []
      \<and> acquired (snd (loadNotebook env body)) = ZipReader # ws"
    using rel acq by (auto simp: released_append acquired_append)
  then show ?thesis by (simp add: all_released_def)
qed

theorem resources_never_closed_witness:
  "released (snd (loadNotebook rejecting_env (File (Inr sample_entries)))) = []
   \<and> acquired (snd (loadNotebook rejecting_env (File (Inr sample_entries)))) =
       [ZipReader, TextWriter, TextWriter, TextWriter, TextWriter]
   \<and> \<not> all_released (snd (loadNotebook rejecting_env (File (Inr sample_entries))))"
proof -
  have "acquired (snd (loadNotebook rejecting_env (File (Inr sample_entries)))) =
       [ZipReader, TextWriter, TextWriter, TextWriter, TextWriter]"
    by code_simp
  then show ?thesis
    using resources_never_closed [of rejecting_env "File (Inr sample_entries)"] by simp
qed

subsection \<open>A manifest without items\<close>

text \<open>
  C9, as the claim states it, fails for a manifest whose \<^verbatim>\<open>items\<close> is a string: it
  has no items array, yet the loop iterates its characters, skips each of them, and the
  call ends without any notification.
\<close>

theorem string_items_counterexample:
  "find (\<lambda>entry. filename entry = ''parse_map.json'') sample_entries =
       Some (text_entry ''parse_map.json'' ''text of parse_map'')
   \<and> JSON_parse string_items_env ''text of parse_map'' = Inr (JObj [(''items'', JStr ''ab'')])
   \<and> snd (loadNotebook string_items_env (File (Inr sample_entries))) =
       [New ZipReader, New TextWriter]"
  by code_simp

text \<open>
  C9, amended. When \<open>parse_map.json\<close> is there and its text is extracted and parses as
  JSON, but the value is \<^verbatim>\<open>null\<close> or its \<^verbatim>\<open>items\<close> is neither an array nor a string
  (it is absent, for instance), the import ends as a top-level failure: no sink is
  called and exactly one notification is emitted, with the title and the type that the
  notification for a manifest text that does not parse has.
\<close>

theorem manifest_without_items_aborts:
  assumes "getEntries env (stream_of body) = Inr result"
    and "find (\<lambda>entry. filename entry = ''parse_map.json'') result = Some manifestFile"
    and "getData manifestFile = Inr text"
    and "JSON_parse env text = Inl e
         \<or> (JSON_parse env text = Inr manifest
            \<and> (manifest = JNull
               \<or> (get_prop ''items'' manifest = Inr items
                  \<and> (\<forall>xs. items \<noteq> Some (JArr xs)) \<and> (\<forall>s. items \<noteq> Some (JStr s)))))"
  shows "calls (snd (loadNotebook env body)) = []
     \<and> map title (notifications (snd (loadNotebook env body))) = [''Load Notebook Error'']
     \<and> map kind (notifications (snd (loadNotebook env body))) = [''error'']"
proof -
  have it: "(\<forall>xs. items \<noteq> Some (JArr xs)) \<Longrightarrow> (\<forall>s. items \<noteq> Some (JStr s)) \<Longrightarrow>
      \<exists>e'. iterate items = Inl e'"
    by (cases items rule: iterate.cases) auto
  show ?thesis
    using assms it
    by (auto simp: loadNotebook_def loadNotebook_try_def load_error_def)
qed

theorem manifest_without_items_aborts_witness:
  "find (\<lambda>entry. filename entry = ''parse_map.json'') sample_entries =
       Some (text_entry ''parse_map.json'' ''text of parse_map'')
   \<and> JSON_parse no_items_env ''text of parse_map'' = Inr (JObj [(''version'', JStr ''1'')])
   \<and> get_prop ''items'' (JObj [(''version'', JStr ''1'')]) = Inr None
   \<and> calls (snd (loadNotebook no_items_env (File (Inr sample_entries)))) = []
   \<and> map title (notifications (snd (loadNotebook no_items_env (File (Inr sample_entries))))) =
       [''Load Notebook Error'']
   \<and> map kind (notifications (snd (loadNotebook no_items_env (File (Inr sample_entries))))) =
       [''error'']
   \<and> JSON_parse spec_env ''{ items'' = Inl (SyntaxError ''Unexpected token in JSON'')
   \<and> calls (snd (loadNotebook spec_env (File (Inr unparseable_entries)))) = []
   \<and> map title (notifications (snd (loadNotebook spec_env (File (Inr unparseable_entries))))) =
       [''Load Notebook Error'']
   \<and> map kind (notifications (snd (loadNotebook spec_env (File (Inr unparseable_entries))))) =
       [''error'']"
proof -
  have h1: "getEntries no_items_env (stream_of (File (Inr sample_entries))) = Inr sample_entries"
    by (simp add: no_items_env_def sample_env_def)
  have h2: "find (\<lambda>entry. filename entry = ''parse_map.json'') sample_entries =
       Some (text_entry ''parse_map.json'' ''text of parse_map'')"
    by code_simp
  have h3: "getData (text_entry ''parse_map.json'' ''text of parse_map'') =
      Inr ''text of parse_map''"
    by (simp add: text_entry_def)
  have h4: "JSON_parse no_items_env ''text of parse_map'' = Inr (JObj [(''version'', JStr ''1'')])"
    by code_simp
  have h5: "get_prop ''items'' (JObj [(''version'', JStr ''1'')]) = Inr None"
    by simp
  have h6: "(\<forall>xs. None \<noteq> Some (JArr xs)) \<and> (\<forall>s. None \<noteq> Some (JStr s))"
    by simp
  have u1: "getEntries spec_env (stream_of (File (Inr unparseable_entries))) =
      Inr unparseable_entries"
    by (simp add: spec_env_def sample_env_def)
  have u2: "find (\<lambda>entry. filename entry = ''parse_map.json'') unparseable_entries =
       Some (text_entry ''parse_map.json'' ''{ items'')"
    by code_simp
  have u3: "getData (text_entry ''parse_map.json'' ''{ items'') = Inr ''{ items''"
    by (simp add: text_entry_def)
  have u4: "JSON_parse spec_env ''{ items'' = Inl (SyntaxError ''Unexpected token in JSON'')"
    by code_simp
  note r = manifest_without_items_aborts
      [OF h1 h2 h3 disjI2 [OF conjI [OF h4 disjI2 [OF conjI [OF h5 h6]]]]]
  note u = manifest_without_items_aborts [OF u1 u2 u3 disjI1 [OF u4]]
  show ?thesis
    using h2 h4 h5 u4 r u by simp
qed

end
